theory Spec2Isabelle
  imports Complex_Main
begin

section \<open>JavaScript values\<close>

text \<open>
  The editor manager compares, tests and concatenates untyped cell values, so the
  operators of the language are part of the program. Values are the primitives a cell
  or an editor can hold; objects are outside the model. A number is \<open>NaN\<close>, an
  infinity or a finite number, which is a real; the negative zero is not told from zero,
  as no operator of the program tells them apart. The doubles are among these numbers.
\<close>

datatype jsnum = NaN | Infinity | NegInfinity | Finite real

datatype jsval = JUndefined | JNull | JBool bool | JNum jsnum | JStr string

text \<open>
  The conversions of the language between strings and numbers, StringToNumber and
  Number::toString, round to the nearest double and print the shortest digits that read
  back. They are not part of the sources and are parameters of the model: every
  statement about the program holds whatever the two functions are.
\<close>

record Conversions =
  StringToNumber :: "string \<Rightarrow> jsnum"
  NumberToString :: "jsnum \<Rightarrow> string"

text \<open>ToBoolean: what \<open>v ? a : b\<close> and \<open>!v\<close> test.\<close>

fun truthy :: "jsval \<Rightarrow> bool" where
  "truthy JUndefined = False"
| "truthy JNull = False"
| "truthy (JBool b) = b"
| "truthy (JNum NaN) = False"
| "truthy (JNum Infinity) = True"
| "truthy (JNum NegInfinity) = True"
| "truthy (JNum (Finite x)) = (x \<noteq> 0)"
| "truthy (JStr s) = (s \<noteq> [])"

text \<open>The nullish coalescing operator \<open>a ?? b\<close>.\<close>

fun nullish :: "jsval \<Rightarrow> jsval \<Rightarrow> jsval" where
  "nullish JUndefined d = d"
| "nullish JNull d = d"
| "nullish v d = v"

text \<open>Number equality: \<open>NaN\<close> equals nothing, itself included.\<close>

fun num_eq :: "jsnum \<Rightarrow> jsnum \<Rightarrow> bool" where
  "num_eq (Finite a) (Finite b) = (a = b)"
| "num_eq Infinity Infinity = True"
| "num_eq NegInfinity NegInfinity = True"
| "num_eq _ _ = False"

text \<open>Strict equality \<open>a === b\<close>: the same type and the same value.\<close>

fun strict_eq :: "jsval \<Rightarrow> jsval \<Rightarrow> bool" where
  "strict_eq JUndefined JUndefined = True"
| "strict_eq JNull JNull = True"
| "strict_eq (JBool a) (JBool b) = (a = b)"
| "strict_eq (JNum a) (JNum b) = num_eq a b"
| "strict_eq (JStr a) (JStr b) = (a = b)"
| "strict_eq _ _ = False"

text \<open>
  Loose equality \<open>a == b\<close> (IsLooselyEqual): a Boolean operand is converted to a
  number first, \<open>null\<close> and \<open>undefined\<close> equal each other and nothing else, a
  number and a string are compared as numbers, the string converted by StringToNumber,
  and two values of one type strictly.
\<close>

fun bool_to_number :: "jsval \<Rightarrow> jsval" where
  "bool_to_number (JBool b) = JNum (Finite (if b then 1 else 0))"
| "bool_to_number v = v"

fun loose_eq_prim :: "Conversions \<Rightarrow> jsval \<Rightarrow> jsval \<Rightarrow> bool" where
  "loose_eq_prim js JUndefined JNull = True"
| "loose_eq_prim js JNull JUndefined = True"
| "loose_eq_prim js (JNum a) (JStr s) = num_eq a (StringToNumber js s)"
| "loose_eq_prim js (JStr s) (JNum b) = num_eq (StringToNumber js s) b"
| "loose_eq_prim js a b = strict_eq a b"

definition loose_eq :: "Conversions \<Rightarrow> jsval \<Rightarrow> jsval \<Rightarrow> bool" where
  "loose_eq js a b =
     (case (a, b) of
        (JBool x, JBool y) \<Rightarrow> x = y
      | _ \<Rightarrow> loose_eq_prim js (bool_to_number a) (bool_to_number b))"

text \<open>
  ToString, a number printed by Number::toString, and \<open>v + s\<close> with a string on the
  right: the concatenation of the two strings.
\<close>

fun ToString :: "Conversions \<Rightarrow> jsval \<Rightarrow> string" where
  "ToString js JUndefined = ''undefined''"
| "ToString js JNull = ''null''"
| "ToString js (JBool b) = (if b then ''true'' else ''false'')"
| "ToString js (JNum n) = NumberToString js n"
| "ToString js (JStr s) = s"

definition plus_string :: "Conversions \<Rightarrow> jsval \<Rightarrow> string \<Rightarrow> jsval" where
  "plus_string js v s = JStr (ToString js v @ s)"


section \<open>The data of the editor manager\<close>

record NavigationCoords =
  rowIndex :: int
  colIndex :: int

text \<open>
  A row is an object read through the column accessor; a property that is not there
  reads as \<open>undefined\<close>. Reading an array outside its range gives \<open>undefined\<close> too,
  here \<open>None\<close>.
\<close>

type_synonym row = "string \<rightharpoonup> jsval"

definition getProp :: "row \<Rightarrow> string \<Rightarrow> jsval" where
  "getProp r a = (case r a of None \<Rightarrow> JUndefined | Some v \<Rightarrow> v)"

definition at_index :: "'a list \<Rightarrow> int \<Rightarrow> 'a option" where
  "at_index xs i = (if 0 \<le> i \<and> i < int (length xs) then Some (xs ! nat i) else None)"

text \<open>
  Modelled from the spec: the enumeration \<open>ColumnCellType\<close> is declared outside the
  given sources; the column descriptor of the specification lists the types
  Text, Numeric, Calendar and Custom. The manager only tests for Calendar and Numeric.
\<close>

datatype ColumnCellType = Text | Numeric | Calendar | Custom

text \<open>
  \<open>readOnly\<close> is a Boolean or a predicate of the coordinate. DOM elements and the
  elements an editor factory returns are opaque handles.
\<close>

datatype ReadOnly = Flag bool | Predicate "NavigationCoords \<Rightarrow> bool"

type_synonym element = nat

record Header =
  colId :: string
  accessor :: string
  colType :: "ColumnCellType option"
  readOnly :: "ReadOnly option"
  validatorHook :: "(jsval \<Rightarrow> bool) option"
  editor :: "(row \<Rightarrow> element) option"
  maxLength :: "int option"

record EditorProps =
  anchorRef :: element
  "value" :: jsval
  p_maxLength :: int
  p_validatorHook :: "(jsval \<Rightarrow> bool) option"

datatype EditorComponent = TextEditor | NumericEditor | CalendarEditor

text \<open>
  The editor node is either an element created from one of the three built-in
  components with the editor properties, or the element a column's factory returned.
\<close>

datatype node = Created EditorComponent EditorProps | Supplied element

record IEditorState =
  s_node :: node
  s_rowIndex :: int
  s_colIndex :: int
  initialValue :: jsval
  targetElement :: element
  s_validatorHook :: "(jsval \<Rightarrow> bool) option"
  isPopup :: bool

record CellChangeParams =
  coords :: NavigationCoords
  previousValue :: jsval
  newValue :: jsval

text \<open>
  What a call does to the outside, in the order it does it: the \<open>onCellChange\<close>
  callback, the events dispatched on the API object, and the console.
\<close>

datatype warning = ColumnNotFound int | RowNotFound int string | KeyPressedToNavigate

datatype effect =
    OnCellChange CellChangeParams
  | CELL_BEGIN_EDITING NavigationCoords
  | CELL_STOP_EDITING NavigationCoords
  | ConsoleWarn warning
  | ConsoleLog string
  | KeyDown string

text \<open>
  The properties of the hook. \<open>rows\<close> is the row array (read through
  \<open>apiRef.current.getRows()\<close> in the API-driven manager), \<open>onCellChange\<close> tells
  whether the host supplied the callback, and \<open>selectionId\<close> is the constant
  \<open>ROW_SELECTION_HEADER_ID\<close>, imported from a module outside the given sources.
\<close>

record EditorManagerProps =
  rows :: "row list"
  getColumnAt :: "int \<Rightarrow> Header option"
  onCellChange :: bool
  selectionId :: string

record StopEditingParams =
  save :: "bool option"

record BeginEditingParams =
  b_coords :: NavigationCoords
  b_targetElement :: element
  defaultKey :: "string option"

text \<open>
  The mutable state of the hook: \<open>state.current\<close>, \<open>editorRef.current\<close> and the
  React state \<open>editorNode\<close>. A mounted editor reference is represented by the value
  its \<open>getValue()\<close> returns.
\<close>

record manager =
  state :: "IEditorState option"
  editorRef :: "jsval option"
  editorNode :: "node option"

definition idle :: manager where
  "idle = \<lparr>state = None, editorRef = None, editorNode = None\<rparr>"


section \<open>The API-driven editor manager\<close>

definition onRefMount :: "jsval \<Rightarrow> manager \<Rightarrow> manager" where
  "onRefMount ref m = m\<lparr>editorRef := Some ref\<rparr>"

definition getEditor :: "row \<Rightarrow> Header \<Rightarrow> EditorProps \<Rightarrow> node" where
  "getEditor r column props =
     (case editor column of
        Some factory \<Rightarrow> Supplied (factory r)
      | None \<Rightarrow>
          Created
            (if colType column = Some Calendar then CalendarEditor
             else if colType column = Some Numeric then NumericEditor
             else TextEditor)
            props)"

definition isReadOnly :: "Header \<Rightarrow> NavigationCoords \<Rightarrow> bool" where
  "isReadOnly column c =
     (case readOnly column of
        None \<Rightarrow> False
      | Some (Flag b) \<Rightarrow> b
      | Some (Predicate p) \<Rightarrow> p c)"

text \<open>The constant \<open>value\<close> of \<open>beginEditing\<close>: what the editor starts with.\<close>

definition bufferedValue :: "Conversions \<Rightarrow> row \<Rightarrow> Header \<Rightarrow> string option \<Rightarrow> jsval" where
  "bufferedValue js r column key =
     (if truthy (getProp r (accessor column)) then
        (case key of
           Some k \<Rightarrow> if k \<noteq> [] then plus_string js (getProp r (accessor column)) k
                     else getProp r (accessor column)
         | None \<Rightarrow> getProp r (accessor column))
      else
        (case key of
           Some k \<Rightarrow> if k \<noteq> [] then JStr k else JStr []
         | None \<Rightarrow> JStr []))"

definition editorProps :: "Conversions \<Rightarrow> BeginEditingParams \<Rightarrow> row \<Rightarrow> Header \<Rightarrow> EditorProps" where
  "editorProps js params r column =
     \<lparr>anchorRef = b_targetElement params,
      value = bufferedValue js r column (defaultKey params),
      p_maxLength = (case maxLength column of None \<Rightarrow> 500 | Some n \<Rightarrow> n),
      p_validatorHook = validatorHook column\<rparr>"

definition sameCoords :: "'a manager_scheme \<Rightarrow> NavigationCoords \<Rightarrow> bool" where
  "sameCoords m c =
     (case state m of
        None \<Rightarrow> False
      | Some s \<Rightarrow> s_rowIndex s = rowIndex c \<and> s_colIndex s = colIndex c)"

definition beginEditing ::
  "Conversions \<Rightarrow> EditorManagerProps \<Rightarrow> BeginEditingParams \<Rightarrow> manager \<Rightarrow> manager \<times> effect list" where
  "beginEditing js props params m =
     (if sameCoords m (b_coords params) then (m, [])
      else case getColumnAt props (colIndex (b_coords params)) of
        None \<Rightarrow> (m, [ConsoleWarn (ColumnNotFound (colIndex (b_coords params)))])
      | Some column \<Rightarrow>
          if colId column = selectionId props then (m, [])
          else if isReadOnly column (b_coords params) then (m, [])
          else case at_index (rows props) (rowIndex (b_coords params)) of
            None \<Rightarrow>
              (m, [ConsoleWarn (RowNotFound (rowIndex (b_coords params)) (colId column))])
          | Some r \<Rightarrow>
              (m\<lparr>state := Some
                   \<lparr>s_node = getEditor r column (editorProps js params r column),
                    s_rowIndex = rowIndex (b_coords params),
                    s_colIndex = colIndex (b_coords params),
                    initialValue = nullish (getProp r (accessor column)) (JStr []),
                    targetElement = b_targetElement params,
                    s_validatorHook = validatorHook column,
                    isPopup = (editor column \<noteq> None \<or> colType column = Some Calendar)\<rparr>,
                  editorNode := Some (getEditor r column (editorProps js params r column))\<rparr>,
               [CELL_BEGIN_EDITING (b_coords params)]))"

text \<open>\<open>editorRef.current?.getValue() ?? undefined\<close>\<close>

definition getValue :: "'a manager_scheme \<Rightarrow> jsval" where
  "getValue m = (case editorRef m of None \<Rightarrow> JUndefined | Some v \<Rightarrow> nullish v JUndefined)"

text \<open>\<open>editorState.validatorHook?.(newValue) ?? true\<close>\<close>

definition isValid :: "IEditorState \<Rightarrow> jsval \<Rightarrow> bool" where
  "isValid s v = (case s_validatorHook s of None \<Rightarrow> True | Some hook \<Rightarrow> hook v)"

text \<open>\<open>params === undefined || params.save\<close>\<close>

definition saving :: "'a StopEditingParams_scheme option \<Rightarrow> bool" where
  "saving params = (case params of None \<Rightarrow> True | Some p \<Rightarrow> save p = Some True)"

definition sessionCoords :: "IEditorState \<Rightarrow> NavigationCoords" where
  "sessionCoords s = \<lparr>rowIndex = s_rowIndex s, colIndex = s_colIndex s\<rparr>"

text \<open>The guarded call \<open>if (newValue != editorState.initialValue) onCellChange?.(...)\<close>.\<close>

definition commitChange :: "Conversions \<Rightarrow> EditorManagerProps \<Rightarrow> IEditorState \<Rightarrow> jsval \<Rightarrow> effect list" where
  "commitChange js props s v =
     (if \<not> loose_eq js v (initialValue s) then
        (if onCellChange props then
           [OnCellChange
              \<lparr>coords = \<lparr>rowIndex = s_rowIndex s, colIndex = s_colIndex s\<rparr>,
               previousValue = initialValue s,
               newValue = v\<rparr>]
         else [])
      else [])"

definition stopEditing ::
  "Conversions \<Rightarrow> EditorManagerProps \<Rightarrow> StopEditingParams option \<Rightarrow> manager \<Rightarrow> manager \<times> effect list" where
  "stopEditing js props params m =
     (case state m of
        None \<Rightarrow> (m, [])
      | Some editorState \<Rightarrow>
          if saving params then
            (if getValue m = JUndefined then
               (m\<lparr>state := None, editorRef := None, editorNode := None\<rparr>,
                [CELL_STOP_EDITING (sessionCoords editorState)])
             else if \<not> isValid editorState (getValue m) then
               (m\<lparr>editorRef := None, state := None, editorNode := None\<rparr>,
                [CELL_STOP_EDITING (sessionCoords editorState)])
             else
               (m\<lparr>editorRef := None, state := None, editorNode := None\<rparr>,
                commitChange js props editorState (getValue m)
                  @ [CELL_STOP_EDITING (sessionCoords editorState)]))
          else
            (m\<lparr>editorRef := None, state := None, editorNode := None\<rparr>,
             [CELL_STOP_EDITING (sessionCoords editorState)]))"

text \<open>
  The body of the effect that detects a changed or deleted row or column.
\<close>

definition reconcile :: "Conversions \<Rightarrow> EditorManagerProps \<Rightarrow> manager \<Rightarrow> manager \<times> effect list" where
  "reconcile js props m =
     (case editorNode m of
        None \<Rightarrow> (m, [])
      | Some _ \<Rightarrow>
          (case state m of
             None \<Rightarrow> (m, [])
           | Some s \<Rightarrow>
               (case at_index (rows props) (s_rowIndex s) of
                  None \<Rightarrow> stopEditing js props (Some \<lparr>save = Some False\<rparr>) m
                | Some target \<Rightarrow>
                    (case getColumnAt props (s_colIndex s) of
                       None \<Rightarrow> stopEditing js props (Some \<lparr>save = Some False\<rparr>) m
                     | Some column \<Rightarrow>
                         if getProp target (accessor column) = JUndefined
                         then stopEditing js props (Some \<lparr>save = Some False\<rparr>) m
                         else (m, [])))))"

text \<open>
  React runs an effect after the first render, and after a later render when one of the
  values in its dependency array is not the same object as at the render before. The
  identities of what a render receives are tokens: two renders pass the same array or
  function exactly when the tokens are equal.
\<close>

record identities =
  id_rows :: nat
  id_getColumnAt :: nat
  id_apiRef :: nat
  id_editorNode :: nat

text \<open>The dependency array \<open>[apiRef, getColumnAt, editorNode]\<close>.\<close>

definition reconcilerDeps :: "identities \<Rightarrow> nat list" where
  "reconcilerDeps i = [id_apiRef i, id_getColumnAt i, id_editorNode i]"

definition reconcilerEffect ::
  "Conversions \<Rightarrow> identities option \<Rightarrow> identities \<Rightarrow> EditorManagerProps \<Rightarrow> manager
     \<Rightarrow> manager \<times> effect list" where
  "reconcilerEffect js previous current props m =
     (case previous of
        None \<Rightarrow> reconcile js props m
      | Some p \<Rightarrow>
          if reconcilerDeps p \<noteq> reconcilerDeps current then reconcile js props m
          else (m, []))"


section \<open>The props-driven editor manager\<close>

text \<open>
  The second manager takes the rows as a property, dispatches no events, and can
  replay a navigation key after the editor has closed. Both modules export the same
  names; what belongs to this one carries the suffix \<open>K\<close>. Its state adds the React state
  \<open>scheduleMove\<close> and what the replay effect needs: the pending timeouts (each with
  the key its callback has captured), the next timeout handle, the timeout the cleanup
  of the last run of the effect clears, and the \<open>scheduleMove\<close> that run has seen.
\<close>

record StopEditingParamsK = StopEditingParams +
  keyPress :: "string option"

record managerK = manager +
  scheduleMove :: "string option"
  timers :: "(nat \<times> string) list"
  nextTimer :: nat
  moveCleanup :: "nat option"
  moveSeen :: "string option option"

definition mounted :: managerK where
  "mounted =
     \<lparr>state = None, editorRef = None, editorNode = None,
      scheduleMove = None, timers = [], nextTimer = 0,
      moveCleanup = None, moveSeen = None\<rparr>"

definition onRefMountK :: "jsval \<Rightarrow> managerK \<Rightarrow> managerK" where
  "onRefMountK ref m = m\<lparr>editorRef := Some ref\<rparr>"

text \<open>
  The effect with the dependency array \<open>[scheduleMove]\<close>. When \<open>scheduleMove\<close> is
  what the last run has seen, React skips it. Otherwise the cleanup of the last run
  clears its timeout, and the body sets a new timeout unless \<open>scheduleMove\<close> is
  falsy.
\<close>

definition clearTimeout :: "nat option \<Rightarrow> (nat \<times> string) list \<Rightarrow> (nat \<times> string) list" where
  "clearTimeout h ts = (case h of None \<Rightarrow> ts | Some i \<Rightarrow> filter (\<lambda>t. fst t \<noteq> i) ts)"

definition scheduleMoveEffect :: "managerK \<Rightarrow> managerK" where
  "scheduleMoveEffect m =
     (if moveSeen m = Some (scheduleMove m) then m
      else
        (case scheduleMove m of
           None \<Rightarrow>
             m\<lparr>timers := clearTimeout (moveCleanup m) (timers m),
               moveCleanup := None,
               moveSeen := Some None\<rparr>
         | Some k \<Rightarrow>
             if k = [] then
               m\<lparr>timers := clearTimeout (moveCleanup m) (timers m),
                 moveCleanup := None,
                 moveSeen := Some (Some k)\<rparr>
             else
               m\<lparr>timers := clearTimeout (moveCleanup m) (timers m) @ [(nextTimer m, k)],
                 nextTimer := Suc (nextTimer m),
                 moveCleanup := Some (nextTimer m),
                 moveSeen := Some (Some k)\<rparr>))"

text \<open>
  The setter of the React state \<open>scheduleMove\<close>. Setting the value the state has
  changes nothing. Otherwise React renders again, and before it does so it runs the
  effects of the last commit that are still waiting, which see the old value.
\<close>

definition setScheduleMove :: "string option \<Rightarrow> managerK \<Rightarrow> managerK" where
  "setScheduleMove v m =
     (if scheduleMove m = v then m else (scheduleMoveEffect m)\<lparr>scheduleMove := v\<rparr>)"

text \<open>The end of \<open>stopEditing\<close>: close, then schedule the key when one is given.\<close>

definition closeEditor :: "StopEditingParamsK option \<Rightarrow> managerK \<Rightarrow> managerK \<times> effect list" where
  "closeEditor params m =
     (case params of
        None \<Rightarrow> (m\<lparr>editorRef := None, state := None, editorNode := None\<rparr>, [])
      | Some p \<Rightarrow>
          (case keyPress p of
             None \<Rightarrow> (m\<lparr>editorRef := None, state := None, editorNode := None\<rparr>, [])
           | Some k \<Rightarrow>
               if k \<noteq> [] then
                 (setScheduleMove (Some k)
                    (m\<lparr>editorRef := None, state := None, editorNode := None\<rparr>),
                  [ConsoleWarn KeyPressedToNavigate, ConsoleLog k])
               else (m\<lparr>editorRef := None, state := None, editorNode := None\<rparr>, [])))"

definition stopEditingK ::
  "Conversions \<Rightarrow> EditorManagerProps \<Rightarrow> StopEditingParamsK option \<Rightarrow> managerK \<Rightarrow> managerK \<times> effect list" where
  "stopEditingK js props params m =
     (case state m of
        None \<Rightarrow> (m, [])
      | Some editorState \<Rightarrow>
          if saving params then
            (if getValue m = JUndefined then
               (m\<lparr>state := None, editorRef := None, editorNode := None\<rparr>, [])
             else if \<not> isValid editorState (getValue m) then
               (m\<lparr>editorRef := None, state := None, editorNode := None\<rparr>, [])
             else
               (fst (closeEditor params m),
                commitChange js props editorState (getValue m) @ snd (closeEditor params m)))
          else closeEditor params m)"

definition beginEditingK ::
  "Conversions \<Rightarrow> EditorManagerProps \<Rightarrow> BeginEditingParams \<Rightarrow> managerK \<Rightarrow> managerK \<times> effect list" where
  "beginEditingK js props params m =
     (if sameCoords m (b_coords params) then (m, [])
      else case getColumnAt props (colIndex (b_coords params)) of
        None \<Rightarrow> (m, [ConsoleWarn (ColumnNotFound (colIndex (b_coords params)))])
      | Some column \<Rightarrow>
          if colId column = selectionId props then (m, [])
          else if isReadOnly column (b_coords params) then (m, [])
          else case at_index (rows props) (rowIndex (b_coords params)) of
            None \<Rightarrow>
              (m, [ConsoleWarn (RowNotFound (rowIndex (b_coords params)) (colId column))])
          | Some r \<Rightarrow>
              (m\<lparr>state := Some
                   \<lparr>s_node = getEditor r column (editorProps js params r column),
                    s_rowIndex = rowIndex (b_coords params),
                    s_colIndex = colIndex (b_coords params),
                    initialValue = bufferedValue js r column (defaultKey params),
                    targetElement = b_targetElement params,
                    s_validatorHook = validatorHook column,
                    isPopup = (editor column \<noteq> None \<or> colType column = Some Calendar)\<rparr>,
                  editorNode := Some (getEditor r column (editorProps js params r column))\<rparr>,
               []))"

definition reconcileK :: "Conversions \<Rightarrow> EditorManagerProps \<Rightarrow> managerK \<Rightarrow> managerK \<times> effect list" where
  "reconcileK js props m =
     (case editorNode m of
        None \<Rightarrow> (m, [])
      | Some _ \<Rightarrow>
          (case state m of
             None \<Rightarrow> (m, [])
           | Some s \<Rightarrow>
               (case at_index (rows props) (s_rowIndex s) of
                  None \<Rightarrow> stopEditingK js props (Some \<lparr>save = Some False, keyPress = None\<rparr>) m
                | Some target \<Rightarrow>
                    (case getColumnAt props (s_colIndex s) of
                       None \<Rightarrow>
                         stopEditingK js props (Some \<lparr>save = Some False, keyPress = None\<rparr>) m
                     | Some column \<Rightarrow>
                         if getProp target (accessor column) = JUndefined
                         then stopEditingK js props (Some \<lparr>save = Some False, keyPress = None\<rparr>) m
                         else (m, [])))))"

text \<open>The dependency array \<open>[rows, getColumnAt, editorNode]\<close>.\<close>

definition reconcilerDepsK :: "identities \<Rightarrow> nat list" where
  "reconcilerDepsK i = [id_rows i, id_getColumnAt i, id_editorNode i]"

definition reconcilerEffectK ::
  "Conversions \<Rightarrow> identities option \<Rightarrow> identities \<Rightarrow> EditorManagerProps \<Rightarrow> managerK
     \<Rightarrow> managerK \<times> effect list" where
  "reconcilerEffectK js previous current props m =
     (case previous of
        None \<Rightarrow> reconcileK js props m
      | Some p \<Rightarrow>
          if reconcilerDepsK p \<noteq> reconcilerDepsK current then reconcileK js props m
          else (m, []))"







section \<open>Navigation\<close>

text \<open>The bounds test of the keyboard helpers.\<close>

definition isIndexOutOfBoundaries :: "int \<Rightarrow> int \<Rightarrow> int \<Rightarrow> bool" where
  "isIndexOutOfBoundaries index lo hi = (index < lo \<or> index > hi)"

record bounds =
  maxRow :: int
  maxCol :: int

record MergeRegion =
  anchor :: NavigationCoords
  spanning :: "NavigationCoords list"

text \<open>
  Modelled from the spec: the Merge Resolver is not among the given sources.
  \<open>resolveAnchor\<close> returns the coordinate unchanged if it is not part of any merge
  region, and the anchor of its region otherwise.
\<close>

definition resolveAnchor :: "MergeRegion list \<Rightarrow> NavigationCoords \<Rightarrow> NavigationCoords" where
  "resolveAnchor regions c =
     (case find (\<lambda>r. c \<in> set (spanning r)) regions of
        None \<Rightarrow> c
      | Some r \<Rightarrow> anchor r)"

text \<open>
  Modelled from the spec: the Navigation State and its operations are not among the
  given sources. \<open>moveTo\<close> rejects a target outside
  \<open>[0, maxRow] \<times> [0, maxCol]\<close> and leaves the state unchanged; otherwise it resolves
  the target through the Merge Resolver and sets the state to the anchor. The test for
  outside is \<open>isIndexOutOfBoundaries\<close>, which is in the sources. The Merge Resolver
  is the parameter \<open>resolve\<close>.
\<close>

definition moveTo ::
  "(NavigationCoords \<Rightarrow> NavigationCoords) \<Rightarrow> bounds \<Rightarrow> NavigationCoords \<Rightarrow> NavigationCoords
     \<Rightarrow> NavigationCoords" where
  "moveTo resolve b target current =
     (if isIndexOutOfBoundaries (rowIndex target) 0 (maxRow b)
         \<or> isIndexOutOfBoundaries (colIndex target) 0 (maxCol b)
      then current
      else resolve target)"

text \<open>
  Modelled from the spec: \<open>moveBy\<close> is not among the given sources either. It
  computes the target as the current coordinate plus the delta, then behaves as
  \<open>moveTo\<close>.
\<close>

definition moveBy ::
  "(NavigationCoords \<Rightarrow> NavigationCoords) \<Rightarrow> bounds \<Rightarrow> NavigationCoords \<Rightarrow> NavigationCoords
     \<Rightarrow> NavigationCoords" where
  "moveBy resolve b delta current =
     moveTo resolve b
       \<lparr>rowIndex = rowIndex current + rowIndex delta,
        colIndex = colIndex current + colIndex delta\<rparr>
       current"

datatype command = MoveTo NavigationCoords | MoveBy NavigationCoords

fun navigate ::
  "(NavigationCoords \<Rightarrow> NavigationCoords) \<Rightarrow> bounds \<Rightarrow> command list \<Rightarrow> NavigationCoords
     \<Rightarrow> NavigationCoords" where
  "navigate resolve b [] current = current"
| "navigate resolve b (MoveTo t # cs) current = navigate resolve b cs (moveTo resolve b t current)"
| "navigate resolve b (MoveBy d # cs) current = navigate resolve b cs (moveBy resolve b d current)"

definition inside :: "bounds \<Rightarrow> NavigationCoords \<Rightarrow> bool" where
  "inside b c =
     (0 \<le> rowIndex c \<and> rowIndex c \<le> maxRow b \<and> 0 \<le> colIndex c \<and> colIndex c \<le> maxCol b)"


section \<open>Observations and example configurations\<close>

text \<open>What the host observes of a call: the cell changes, and the notifications.\<close>

fun cellChanges :: "effect list \<Rightarrow> CellChangeParams list" where
  "cellChanges [] = []"
| "cellChanges (OnCellChange p # es) = p # cellChanges es"
| "cellChanges (e # es) = cellChanges es"

fun isConsole :: "effect \<Rightarrow> bool" where
  "isConsole (ConsoleWarn w) = True"
| "isConsole (ConsoleLog l) = True"
| "isConsole e = False"

definition notifications :: "effect list \<Rightarrow> effect list" where
  "notifications es = filter (\<lambda>e. \<not> isConsole e) es"

fun stopNotifications :: "effect list \<Rightarrow> NavigationCoords list" where
  "stopNotifications [] = []"
| "stopNotifications (CELL_STOP_EDITING c # es) = c # stopNotifications es"
| "stopNotifications (e # es) = stopNotifications es"


text \<open>
  The guards of \<open>beginEditing\<close> all pass: the call is not a reentry, and it finds the
  column \<open>column\<close>, which is editable at the coordinate, and the row \<open>r\<close>.
\<close>

definition createsSession ::
  "EditorManagerProps \<Rightarrow> BeginEditingParams \<Rightarrow> 'a manager_scheme \<Rightarrow> Header \<Rightarrow> row \<Rightarrow> bool" where
  "createsSession props params m column r =
     (\<not> sameCoords m (b_coords params)
      \<and> getColumnAt props (colIndex (b_coords params)) = Some column
      \<and> colId column \<noteq> selectionId props
      \<and> \<not> isReadOnly column (b_coords params)
      \<and> at_index (rows props) (rowIndex (b_coords params)) = Some r)"

text \<open>The \<open>maxLength\<close> an editor node has been created with, if it has been.\<close>

fun nodeMaxLength :: "node \<Rightarrow> int option" where
  "nodeMaxLength (Created c p) = Some (p_maxLength p)"
| "nodeMaxLength (Supplied e) = None"

text \<open>
  The examples need the two conversions at a few arguments only: the strings and numbers
  of the example grid, which are decimal integers of a few digits. \<open>decimals\<close> is the
  language's conversions there: a string of decimal digits, with a sign and white space
  around it if any, is its value, and an integer is printed in decimal digits. What
  \<open>decimals\<close> returns elsewhere (\<open>NaN\<close> and the empty string) plays no part.
\<close>

definition is_space :: "char \<Rightarrow> bool" where
  "is_space c = (c \<in> set [CHR '' '', CHR 0x09, CHR 0x0A, CHR 0x0B, CHR 0x0C, CHR 0x0D])"

definition is_digit :: "char \<Rightarrow> bool" where
  "is_digit c = (c \<in> set ''0123456789'')"

definition digit_val :: "char \<Rightarrow> int" where
  "digit_val c = int (length (takeWhile (\<lambda>d. d \<noteq> c) ''0123456789''))"

definition digits_val :: "string \<Rightarrow> int" where
  "digits_val s = foldl (\<lambda>acc c. 10 * acc + digit_val c) 0 s"

definition trim :: "string \<Rightarrow> string" where
  "trim s = rev (dropWhile is_space (rev (dropWhile is_space s)))"

definition unsigned_number :: "string \<Rightarrow> jsnum" where
  "unsigned_number s =
     (if s \<noteq> [] \<and> length s \<le> 15 \<and> list_all is_digit s
      then Finite (of_int (digits_val s)) else NaN)"

fun negate :: "jsnum \<Rightarrow> jsnum" where
  "negate (Finite x) = Finite (- x)"
| "negate n = NaN"

definition decimalNumber :: "string \<Rightarrow> jsnum" where
  "decimalNumber s =
     (case trim s of
        [] \<Rightarrow> Finite 0
      | c # cs \<Rightarrow>
          if c = CHR ''-'' then negate (unsigned_number cs)
          else if c = CHR ''+'' then unsigned_number cs
          else unsigned_number (c # cs))"

fun nat_digits :: "nat \<Rightarrow> string" where
  "nat_digits n =
     (if n < 10 then [''0123456789'' ! n]
      else nat_digits (n div 10) @ [''0123456789'' ! (n mod 10)])"

fun decimalString :: "jsnum \<Rightarrow> string" where
  "decimalString (Finite x) =
     (if x = of_int \<lfloor>x\<rfloor> \<and> \<bar>x\<bar> < 10 ^ 15 then
        (if x < 0 then CHR ''-'' # nat_digits (nat (- \<lfloor>x\<rfloor>)) else nat_digits (nat \<lfloor>x\<rfloor>))
      else [])"
| "decimalString n = []"

definition decimals :: Conversions where
  "decimals = \<lparr>StringToNumber = decimalNumber, NumberToString = decimalString\<rparr>"

text \<open>
  A grid of five rows and three columns: a text column, a numeric column, and a
  read-only column. The quantity of the third row is the empty string.
\<close>

definition gridColumn :: "int \<Rightarrow> Header option" where
  "gridColumn i =
     (if i = 0 then
        Some \<lparr>colId = ''name'', accessor = ''name'', colType = None, readOnly = None,
              validatorHook = None, editor = None, maxLength = None\<rparr>
      else if i = 1 then
        Some \<lparr>colId = ''qty'', accessor = ''qty'', colType = Some Numeric, readOnly = None,
              validatorHook = None, editor = None, maxLength = Some 8\<rparr>
      else if i = 2 then
        Some \<lparr>colId = ''total'', accessor = ''total'', colType = Some Numeric,
              readOnly = Some (Flag True), validatorHook = None, editor = None,
              maxLength = None\<rparr>
      else None)"

definition gridRows :: "row list" where
  "gridRows =
     [[''name'' \<mapsto> JStr ''pen'', ''qty'' \<mapsto> JNum (Finite 5), ''total'' \<mapsto> JNum (Finite 10)],
      [''name'' \<mapsto> JStr ''ink'', ''qty'' \<mapsto> JNum (Finite 0), ''total'' \<mapsto> JNum (Finite 0)],
      [''name'' \<mapsto> JStr ''cap'', ''qty'' \<mapsto> JStr [], ''total'' \<mapsto> JNum (Finite 0)],
      [''name'' \<mapsto> JStr ''nib'', ''qty'' \<mapsto> JNum (Finite 2), ''total'' \<mapsto> JNum (Finite 4)],
      [''name'' \<mapsto> JStr ''pad'', ''qty'' \<mapsto> JNum (Finite 1), ''total'' \<mapsto> JNum (Finite 3)]]"

definition grid :: EditorManagerProps where
  "grid = \<lparr>rows = gridRows, getColumnAt = gridColumn, onCellChange = True,
           selectionId = ''__selection__''\<rparr>"

definition cell :: "int \<Rightarrow> int \<Rightarrow> string option \<Rightarrow> BeginEditingParams" where
  "cell r c k =
     \<lparr>b_coords = \<lparr>rowIndex = r, colIndex = c\<rparr>, b_targetElement = 0, defaultKey = k\<rparr>"

text \<open>The same grid after the host has deleted its last row.\<close>

definition shrunk :: EditorManagerProps where
  "shrunk = grid\<lparr>rows := butlast gridRows\<rparr>"

text \<open>A grid whose only column brings its own editor and defines no \<open>maxLength\<close>.\<close>

definition noteColumn :: Header where
  "noteColumn =
     \<lparr>colId = ''note'', accessor = ''note'', colType = None, readOnly = None,
      validatorHook = None, editor = Some (\<lambda>r. 7), maxLength = None\<rparr>"

definition notebook :: EditorManagerProps where
  "notebook =
     \<lparr>rows = [[''note'' \<mapsto> JStr ''call back'']],
      getColumnAt = (\<lambda>i. if i = 0 then Some noteColumn else None),
      onCellChange = True,
      selectionId = ''__selection__''\<rparr>"

text \<open>
  Sessions on the grid. \<open>editing\<close>: the quantity of the third row has been opened
  with the key 9. \<open>typed\<close>: its editor is mounted and reads \<open>9x\<close>. \<open>retyped\<close>:
  the quantity of the first row, the number 5, has been opened, and its editor reads
  the string \<open>5\<close>. \<open>zeroKeyed\<close>: the quantity of the second row, the number 0, has
  been opened with the key 9. \<open>nulled\<close>: as \<open>typed\<close>, but the editor returns
  \<open>null\<close>. \<open>noting\<close>: the note of the notebook below has been opened.
\<close>

definition editing :: manager where
  "editing = fst (beginEditing decimals grid (cell 2 1 (Some ''9'')) idle)"

definition typed :: manager where
  "typed = onRefMount (JStr ''9x'') editing"

definition editingK :: managerK where
  "editingK = fst (beginEditingK decimals grid (cell 2 1 (Some ''9'')) mounted)"

definition typedK :: managerK where
  "typedK = onRefMountK (JStr ''9x'') editingK"

definition retyped :: manager where
  "retyped = onRefMount (JStr ''5'') (fst (beginEditing decimals grid (cell 0 1 None) idle))"

definition zeroKeyed :: manager where
  "zeroKeyed = fst (beginEditing decimals grid (cell 1 1 (Some ''9'')) idle)"

definition nulled :: manager where
  "nulled = onRefMount JNull editing"

definition noting :: manager where
  "noting = fst (beginEditing decimals notebook (cell 0 0 None) idle)"







text \<open>A sheet of five rows and three columns whose first two cells are merged.\<close>

definition sheet :: bounds where
  "sheet = \<lparr>maxRow = 4, maxCol = 2\<rparr>"

definition merged :: "MergeRegion list" where
  "merged =
     [\<lparr>anchor = \<lparr>rowIndex = 0, colIndex = 0\<rparr>,
       spanning = [\<lparr>rowIndex = 0, colIndex = 0\<rparr>, \<lparr>rowIndex = 0, colIndex = 1\<rparr>]\<rparr>]"

text \<open>A merge region whose anchor is outside the sheet and that spans a cell inside.\<close>

definition stray :: "MergeRegion list" where
  "stray =
     [\<lparr>anchor = \<lparr>rowIndex = 9, colIndex = 9\<rparr>,
       spanning = [\<lparr>rowIndex = 9, colIndex = 9\<rparr>, \<lparr>rowIndex = 0, colIndex = 1\<rparr>]\<rparr>]"

definition tour :: "command list" where
  "tour =
     [MoveTo \<lparr>rowIndex = 3, colIndex = 2\<rparr>,
      MoveBy \<lparr>rowIndex = 2, colIndex = 0\<rparr>,
      MoveTo \<lparr>rowIndex = 0, colIndex = 1\<rparr>,
      MoveBy \<lparr>rowIndex = 0, colIndex = - 1\<rparr>]"

text \<open>
  The name of the last row is being edited, in either manager, when the host deletes
  that row: the render \<open>after\<close> receives another row array than the render
  \<open>before\<close>, and the same column lookup, API object and editor node.
\<close>

definition lastRow :: manager where
  "lastRow = fst (beginEditing decimals grid (cell 4 0 None) idle)"

definition lastRowK :: managerK where
  "lastRowK = fst (beginEditingK decimals grid (cell 4 0 None) mounted)"

definition before :: identities where
  "before = \<lparr>id_rows = 1, id_getColumnAt = 1, id_apiRef = 1, id_editorNode = 1\<rparr>"

definition after :: identities where
  "after = \<lparr>id_rows = 2, id_getColumnAt = 1, id_apiRef = 1, id_editorNode = 1\<rparr>"


section \<open>Evaluating the example configurations\<close>

lemmas grid_simps = grid_def gridRows_def gridColumn_def cell_def idle_def mounted_def

lemmas begin_simps = beginEditing_def beginEditingK_def sameCoords_def at_index_def
  isReadOnly_def getEditor_def editorProps_def bufferedValue_def getProp_def

lemma editing_eq:
  "editing =
     \<lparr>state = Some
        \<lparr>s_node = Created NumericEditor
           \<lparr>anchorRef = 0, value = JStr ''9'', p_maxLength = 8, p_validatorHook = None\<rparr>,
         s_rowIndex = 2, s_colIndex = 1, initialValue = JStr [], targetElement = 0,
         s_validatorHook = None, isPopup = False\<rparr>,
      editorRef = None,
      editorNode = Some (Created NumericEditor
           \<lparr>anchorRef = 0, value = JStr ''9'', p_maxLength = 8, p_validatorHook = None\<rparr>)\<rparr>"
  by (simp add: editing_def grid_simps begin_simps)

lemma editingK_eq:
  "editingK =
     \<lparr>state = Some
        \<lparr>s_node = Created NumericEditor
           \<lparr>anchorRef = 0, value = JStr ''9'', p_maxLength = 8, p_validatorHook = None\<rparr>,
         s_rowIndex = 2, s_colIndex = 1, initialValue = JStr ''9'', targetElement = 0,
         s_validatorHook = None, isPopup = False\<rparr>,
      editorRef = None,
      editorNode = Some (Created NumericEditor
           \<lparr>anchorRef = 0, value = JStr ''9'', p_maxLength = 8, p_validatorHook = None\<rparr>),
      scheduleMove = None, timers = [], nextTimer = 0, moveCleanup = None, moveSeen = None\<rparr>"
  by (simp add: editingK_def grid_simps begin_simps)

lemma grid_creates:
  "createsSession grid (cell 2 1 (Some ''9'')) idle (the (gridColumn 1)) (gridRows ! 2)"
  "createsSession grid (cell 2 1 (Some ''9'')) mounted (the (gridColumn 1)) (gridRows ! 2)"
  by (simp_all add: createsSession_def grid_simps sameCoords_def at_index_def isReadOnly_def)


section \<open>Beginning an edit\<close>

text \<open>
  When the guards pass, \<open>beginEditing\<close> stores the session and the editor node, and
  the API-driven manager dispatches the begin-editing event; the event is dispatched in
  no other case.
\<close>

lemma beginEditing_creates:
  assumes "createsSession props params m column r"
  shows "beginEditing js props params m =
     (m\<lparr>state := Some
          \<lparr>s_node = getEditor r column (editorProps js params r column),
           s_rowIndex = rowIndex (b_coords params),
           s_colIndex = colIndex (b_coords params),
           initialValue = nullish (getProp r (accessor column)) (JStr []),
           targetElement = b_targetElement params,
           s_validatorHook = validatorHook column,
           isPopup = (editor column \<noteq> None \<or> colType column = Some Calendar)\<rparr>,
         editorNode := Some (getEditor r column (editorProps js params r column))\<rparr>,
      [CELL_BEGIN_EDITING (b_coords params)])"
  using assms by (simp add: createsSession_def beginEditing_def)

lemma beginEditingK_creates:
  assumes "createsSession props params k column r"
  shows "beginEditingK js props params k =
     (k\<lparr>state := Some
          \<lparr>s_node = getEditor r column (editorProps js params r column),
           s_rowIndex = rowIndex (b_coords params),
           s_colIndex = colIndex (b_coords params),
           initialValue = bufferedValue js r column (defaultKey params),
           targetElement = b_targetElement params,
           s_validatorHook = validatorHook column,
           isPopup = (editor column \<noteq> None \<or> colType column = Some Calendar)\<rparr>,
         editorNode := Some (getEditor r column (editorProps js params r column))\<rparr>,
      [])"
  using assms by (simp add: createsSession_def beginEditingK_def)

lemma created_iff_notified:
  "(\<exists>column r. createsSession props params m column r)
     \<longleftrightarrow> snd (beginEditing js props params m) = [CELL_BEGIN_EDITING (b_coords params)]"
  by (auto simp add: createsSession_def beginEditing_def split: option.splits)

text \<open>
  C3: when a session is active at a coordinate, \<open>beginEditing\<close> at the same row and
  column index returns the manager as it was (session, editor reference, editor node
  and, in the props-driven manager, the scheduled move and the timeouts) and has no
  effect on the outside: no begin-editing event, nothing else.
\<close>

theorem beginEditing_same_coords_noop:
  assumes "state m = Some s" and "state k = Some t"
    and "s_rowIndex s = rowIndex (b_coords params)"
    and "s_colIndex s = colIndex (b_coords params)"
    and "s_rowIndex t = rowIndex (b_coords params)"
    and "s_colIndex t = colIndex (b_coords params)"
  shows "beginEditing js props params m = (m, []) \<and> beginEditingK js props params k = (k, [])"
  using assms by (simp add: beginEditing_def beginEditingK_def sameCoords_def)

theorem beginEditing_same_coords_noop_witness:
  "state editing \<noteq> None \<and> state editingK \<noteq> None
   \<and> beginEditing decimals grid (cell 2 1 None) editing = (editing, [])
   \<and> beginEditingK decimals grid (cell 2 1 None) editingK = (editingK, [])"
  using beginEditing_same_coords_noop
    [where m = editing and s = "the (state editing)" and k = editingK
       and t = "the (state editingK)" and params = "cell 2 1 None" and props = grid
       and js = decimals]
  by (simp add: editing_eq editingK_eq cell_def)

text \<open>
  C5: when the column lookup at the column index yields no column, or the column is the
  row-selection pseudo-column, or the column is read-only for the coordinate (the flag
  itself when \<open>readOnly\<close> is a Boolean, the predicate applied to the coordinate when it
  is a function), or there is no row at the row index, \<open>beginEditing\<close> returns the
  manager unchanged, so no session is created, and emits no notification; the only
  effect it may have is a warning on the console. Both managers behave so, and the
  call always returns.
\<close>

theorem beginEditing_rejected_unchanged:
  assumes "getColumnAt props (colIndex (b_coords params)) = None
     \<or> (\<exists>column. getColumnAt props (colIndex (b_coords params)) = Some column
          \<and> (colId column = selectionId props
             \<or> readOnly column = Some (Flag True)
             \<or> (\<exists>p. readOnly column = Some (Predicate p) \<and> p (b_coords params))
             \<or> at_index (rows props) (rowIndex (b_coords params)) = None))"
  shows "fst (beginEditing js props params m) = m
     \<and> notifications (snd (beginEditing js props params m)) = []
     \<and> fst (beginEditingK js props params k) = k
     \<and> notifications (snd (beginEditingK js props params k)) = []"
  using assms
  by (auto simp add: beginEditing_def beginEditingK_def isReadOnly_def notifications_def
      split: option.splits)

theorem beginEditing_rejected_unchanged_witness:
  "(\<exists>column. getColumnAt grid (colIndex (b_coords (cell 0 2 None))) = Some column
       \<and> readOnly column = Some (Flag True))
   \<and> fst (beginEditing decimals grid (cell 0 2 None) idle) = idle
   \<and> notifications (snd (beginEditing decimals grid (cell 0 2 None) idle)) = []
   \<and> fst (beginEditingK decimals grid (cell 0 2 None) mounted) = mounted
   \<and> notifications (snd (beginEditingK decimals grid (cell 0 2 None) mounted)) = []"
proof -
  have h: "\<exists>column. getColumnAt grid (colIndex (b_coords (cell 0 2 None))) = Some column
       \<and> readOnly column = Some (Flag True)"
    by (simp add: grid_def gridColumn_def cell_def)
  then show ?thesis
    using beginEditing_rejected_unchanged
      [where props = grid and params = "cell 0 2 None" and m = idle and k = mounted
         and js = decimals]
    by blast
qed

text \<open>
  C6: a \<open>beginEditing\<close> call that creates a session stores, as editor node and as the
  node of the session, the element chosen with this precedence: what the column's editor
  factory returns for the row if the column supplies a factory; otherwise an element of
  the Calendar editor when the column type is Calendar, of the Numeric editor when it is
  Numeric, and of the Text editor in every other case. Both managers choose alike.
\<close>

theorem editor_selection_precedence:
  assumes "createsSession props params m column r"
    and "createsSession props params k column r"
  shows "\<exists>n p. editorNode (fst (beginEditing js props params m)) = Some n
     \<and> map_option s_node (state (fst (beginEditing js props params m))) = Some n
     \<and> editorNode (fst (beginEditingK js props params k)) = Some n
     \<and> map_option s_node (state (fst (beginEditingK js props params k))) = Some n
     \<and> (\<forall>factory. editor column = Some factory \<longrightarrow> n = Supplied (factory r))
     \<and> (editor column = None \<and> colType column = Some Calendar
          \<longrightarrow> n = Created CalendarEditor p)
     \<and> (editor column = None \<and> colType column = Some Numeric
          \<longrightarrow> n = Created NumericEditor p)
     \<and> (editor column = None \<and> colType column \<noteq> Some Calendar
          \<and> colType column \<noteq> Some Numeric
          \<longrightarrow> n = Created TextEditor p)"
  unfolding beginEditing_creates [OF assms(1)] beginEditingK_creates [OF assms(2)]
  by (cases "editor column") (auto simp add: getEditor_def)

theorem editor_selection_precedence_witness:
  "createsSession grid (cell 2 1 (Some ''9'')) idle (the (gridColumn 1)) (gridRows ! 2)
   \<and> createsSession grid (cell 2 1 (Some ''9'')) mounted (the (gridColumn 1)) (gridRows ! 2)
   \<and> editor (the (gridColumn 1)) = None \<and> colType (the (gridColumn 1)) = Some Numeric
   \<and> (\<exists>p. editorNode (fst (beginEditing decimals grid (cell 2 1 (Some ''9'')) idle))
            = Some (Created NumericEditor p))"
proof -
  have t: "editor (the (gridColumn 1)) = None \<and> colType (the (gridColumn 1)) = Some Numeric"
    by (simp add: gridColumn_def)
  from editor_selection_precedence [OF grid_creates]
  obtain n p where "editorNode (fst (beginEditing decimals grid (cell 2 1 (Some ''9'')) idle)) = Some n"
    and "editor (the (gridColumn 1)) = None \<and> colType (the (gridColumn 1)) = Some Numeric
          \<longrightarrow> n = Created NumericEditor p"
    by blast
  with t grid_creates show ?thesis by blast
qed

lemma typed_eq:
  "typed =
     \<lparr>state = Some
        \<lparr>s_node = Created NumericEditor
           \<lparr>anchorRef = 0, value = JStr ''9'', p_maxLength = 8, p_validatorHook = None\<rparr>,
         s_rowIndex = 2, s_colIndex = 1, initialValue = JStr [], targetElement = 0,
         s_validatorHook = None, isPopup = False\<rparr>,
      editorRef = Some (JStr ''9x''),
      editorNode = Some (Created NumericEditor
           \<lparr>anchorRef = 0, value = JStr ''9'', p_maxLength = 8, p_validatorHook = None\<rparr>)\<rparr>"
  by (simp add: typed_def editing_eq onRefMount_def)

lemma typedK_eq:
  "typedK =
     \<lparr>state = Some
        \<lparr>s_node = Created NumericEditor
           \<lparr>anchorRef = 0, value = JStr ''9'', p_maxLength = 8, p_validatorHook = None\<rparr>,
         s_rowIndex = 2, s_colIndex = 1, initialValue = JStr ''9'', targetElement = 0,
         s_validatorHook = None, isPopup = False\<rparr>,
      editorRef = Some (JStr ''9x''),
      editorNode = Some (Created NumericEditor
           \<lparr>anchorRef = 0, value = JStr ''9'', p_maxLength = 8, p_validatorHook = None\<rparr>),
      scheduleMove = None, timers = [], nextTimer = 0, moveCleanup = None, moveSeen = None\<rparr>"
  by (simp add: typedK_def editingK_eq onRefMountK_def)

lemma retyped_eq:
  "retyped =
     \<lparr>state = Some
        \<lparr>s_node = Created NumericEditor
           \<lparr>anchorRef = 0, value = JNum (Finite 5), p_maxLength = 8, p_validatorHook = None\<rparr>,
         s_rowIndex = 0, s_colIndex = 1, initialValue = JNum (Finite 5), targetElement = 0,
         s_validatorHook = None, isPopup = False\<rparr>,
      editorRef = Some (JStr ''5''),
      editorNode = Some (Created NumericEditor
           \<lparr>anchorRef = 0, value = JNum (Finite 5), p_maxLength = 8, p_validatorHook = None\<rparr>)\<rparr>"
  by (simp add: retyped_def onRefMount_def grid_simps begin_simps)

lemma noting_eq:
  "noting =
     \<lparr>state = Some
        \<lparr>s_node = Supplied 7, s_rowIndex = 0, s_colIndex = 0,
         initialValue = JStr ''call back'', targetElement = 0,
         s_validatorHook = None, isPopup = True\<rparr>,
      editorRef = None,
      editorNode = Some (Supplied 7)\<rparr>"
  by (simp add: noting_def notebook_def noteColumn_def cell_def idle_def begin_simps)

lemmas number_simps = loose_eq_def decimals_def decimalNumber_def trim_def is_space_def
  unsigned_number_def
  is_digit_def digits_val_def digit_val_def

text \<open>
  C10 (as amended): a \<open>beginEditing\<close> call that creates a session builds editor
  properties whose \<open>maxLength\<close> is the column's \<open>maxLength\<close> when the column defines
  one and 500 when it does not. When the column supplies no editor factory, the built-in
  editor is created with these properties, hence with this \<open>maxLength\<close>. When the
  column supplies a factory, the editor is what the factory returns for the row, and the
  properties are not handed to it.
\<close>

theorem editor_maxLength:
  assumes "createsSession props params m column r"
    and "createsSession props params k column r"
  shows "(\<forall>n. maxLength column = Some n \<longrightarrow> p_maxLength (editorProps js params r column) = n)
     \<and> (maxLength column = None \<longrightarrow> p_maxLength (editorProps js params r column) = 500)
     \<and> (editor column = None \<longrightarrow>
          map_option nodeMaxLength (editorNode (fst (beginEditing js props params m)))
            = Some (Some (p_maxLength (editorProps js params r column)))
          \<and> map_option nodeMaxLength (editorNode (fst (beginEditingK js props params k)))
            = Some (Some (p_maxLength (editorProps js params r column))))
     \<and> (\<forall>factory. editor column = Some factory \<longrightarrow>
          editorNode (fst (beginEditing js props params m)) = Some (Supplied (factory r))
          \<and> editorNode (fst (beginEditingK js props params k)) = Some (Supplied (factory r)))"
  unfolding beginEditing_creates [OF assms(1)] beginEditingK_creates [OF assms(2)]
  by (auto simp add: getEditor_def editorProps_def)

theorem editor_maxLength_witness:
  "createsSession grid (cell 2 1 (Some ''9'')) idle (the (gridColumn 1)) (gridRows ! 2)
   \<and> createsSession grid (cell 2 1 (Some ''9'')) mounted (the (gridColumn 1)) (gridRows ! 2)
   \<and> maxLength (the (gridColumn 1)) = Some 8 \<and> editor (the (gridColumn 1)) = None
   \<and> map_option nodeMaxLength
        (editorNode (fst (beginEditing decimals grid (cell 2 1 (Some ''9'')) idle))) = Some (Some 8)"
  using editor_maxLength [OF grid_creates, where js = decimals] grid_creates
  by (auto simp add: gridColumn_def)

text \<open>
  C10 as stated fails for a column with an editor factory and no \<open>maxLength\<close>: the
  session is created, and its editor has not been created with \<open>maxLength\<close> 500.
\<close>

theorem factory_maxLength_counterexample:
  "createsSession notebook (cell 0 0 None) idle noteColumn (rows notebook ! 0)
   \<and> maxLength noteColumn = None
   \<and> noting = fst (beginEditing decimals notebook (cell 0 0 None) idle)
   \<and> map_option nodeMaxLength (editorNode noting) \<noteq> Some (Some 500)"
proof -
  have "createsSession notebook (cell 0 0 None) idle noteColumn (rows notebook ! 0)"
    by (simp add: createsSession_def notebook_def cell_def idle_def sameCoords_def
        at_index_def isReadOnly_def)
       (simp add: noteColumn_def)
  moreover have "maxLength noteColumn = None"
    by (simp add: noteColumn_def)
  moreover have "noting = fst (beginEditing decimals notebook (cell 0 0 None) idle)"
    by (simp only: noting_def)
  moreover have "map_option nodeMaxLength (editorNode noting) \<noteq> Some (Some 500)"
    by (simp add: noting_eq)
  ultimately show ?thesis by blast
qed


section \<open>Stopping an edit\<close>

lemma cellChanges_append: "cellChanges (xs @ ys) = cellChanges xs @ cellChanges ys"
  by (induction xs rule: cellChanges.induct) simp_all

lemma closeEditor_no_change: "cellChanges (snd (closeEditor params k)) = []"
  by (simp add: closeEditor_def split: option.splits)

text \<open>
  C2: for an active session, \<open>stopEditing\<close> of the API-driven manager always ends
  Idle (session, editor reference and editor node cleared) and dispatches the
  stop-editing event exactly once, with the coordinate of the session, whatever
  \<open>save\<close> is and whatever the outcome. When it saves and the candidate value is
  undefined, or the validator hook of the session returns false on it, the stop-editing
  event is its only effect: no cell change is emitted.
\<close>

theorem stopEditing_discards_and_notifies:
  assumes "state m = Some s"
  shows "state (fst (stopEditing js props params m)) = None
     \<and> editorNode (fst (stopEditing js props params m)) = None
     \<and> editorRef (fst (stopEditing js props params m)) = None
     \<and> stopNotifications (snd (stopEditing js props params m))
         = [\<lparr>rowIndex = s_rowIndex s, colIndex = s_colIndex s\<rparr>]
     \<and> (saving params
          \<and> (getValue m = JUndefined
             \<or> (\<exists>hook. s_validatorHook s = Some hook \<and> \<not> hook (getValue m)))
        \<longrightarrow> snd (stopEditing js props params m)
             = [CELL_STOP_EDITING \<lparr>rowIndex = s_rowIndex s, colIndex = s_colIndex s\<rparr>]
          \<and> cellChanges (snd (stopEditing js props params m)) = [])"
  using assms
  by (auto simp add: stopEditing_def sessionCoords_def commitChange_def isValid_def)

theorem stopEditing_discards_and_notifies_witness:
  "state editing \<noteq> None \<and> saving (None :: StopEditingParams option)
   \<and> getValue editing = JUndefined
   \<and> state (fst (stopEditing decimals grid None editing)) = None
   \<and> snd (stopEditing decimals grid None editing)
       = [CELL_STOP_EDITING \<lparr>rowIndex = 2, colIndex = 1\<rparr>]"
  using stopEditing_discards_and_notifies
    [where m = editing and s = "the (state editing)" and props = grid and params = None
       and js = decimals]
  by (simp add: editing_eq saving_def getValue_def)

lemma getValue_given:
  assumes "editorRef m = Some v" and "v \<noteq> JUndefined" and "v \<noteq> JNull"
  shows "getValue m = v"
  using assms by (cases v) (simp_all add: getValue_def)

lemma nulled_eq:
  "nulled =
     \<lparr>state = Some
        \<lparr>s_node = Created NumericEditor
           \<lparr>anchorRef = 0, value = JStr ''9'', p_maxLength = 8, p_validatorHook = None\<rparr>,
         s_rowIndex = 2, s_colIndex = 1, initialValue = JStr [], targetElement = 0,
         s_validatorHook = None, isPopup = False\<rparr>,
      editorRef = Some JNull,
      editorNode = Some (Created NumericEditor
           \<lparr>anchorRef = 0, value = JStr ''9'', p_maxLength = 8, p_validatorHook = None\<rparr>)\<rparr>"
  by (simp add: nulled_def editing_eq onRefMount_def)

text \<open>
  C1 (as amended): for an active session, \<open>stopEditing\<close> called without parameters
  or with \<open>save\<close> true, with an editor whose candidate value is neither undefined nor
  null and passes the validator, and with the \<open>onCellChange\<close> callback supplied, emits
  exactly one cell change if the candidate differs from the initial value of the session
  under loose inequality (\<open>newValue != previousValue\<close>), and none otherwise. The event
  carries the coordinate of the session, its initial value as previous value and the
  candidate as new value. Both managers behave so, whatever the conversions of the
  language between strings and numbers are.
\<close>

theorem stopEditing_commits_loosely_changed:
  assumes "onCellChange props"
    and "state m = Some s" and "saving params" and "editorRef m = Some v"
    and "v \<noteq> JUndefined" and "v \<noteq> JNull" and "isValid s v"
    and "state k = Some t" and "saving paramsK" and "editorRef k = Some w"
    and "w \<noteq> JUndefined" and "w \<noteq> JNull" and "isValid t w"
  shows "cellChanges (snd (stopEditing js props params m))
       = (if loose_eq js v (initialValue s) then []
          else [\<lparr>coords = \<lparr>rowIndex = s_rowIndex s, colIndex = s_colIndex s\<rparr>,
                 previousValue = initialValue s, newValue = v\<rparr>])
     \<and> cellChanges (snd (stopEditingK js props paramsK k))
       = (if loose_eq js w (initialValue t) then []
          else [\<lparr>coords = \<lparr>rowIndex = s_rowIndex t, colIndex = s_colIndex t\<rparr>,
                 previousValue = initialValue t, newValue = w\<rparr>])"
proof -
  have "getValue m = v" and "getValue k = w"
    using assms by (simp_all add: getValue_given)
  then show ?thesis
    using assms
    by (simp add: stopEditing_def stopEditingK_def commitChange_def cellChanges_append
        closeEditor_no_change)
qed

theorem stopEditing_commits_loosely_changed_witness:
  "onCellChange grid
   \<and> state typed \<noteq> None \<and> saving (Some \<lparr>save = Some True\<rparr>)
   \<and> editorRef typed = Some (JStr ''9x'')
   \<and> isValid (the (state typed)) (JStr ''9x'')
   \<and> state typedK \<noteq> None \<and> saving (Some \<lparr>save = Some True, keyPress = None\<rparr>)
   \<and> editorRef typedK = Some (JStr ''9x'')
   \<and> isValid (the (state typedK)) (JStr ''9x'')
   \<and> cellChanges (snd (stopEditing decimals grid (Some \<lparr>save = Some True\<rparr>) typed))
       = [\<lparr>coords = \<lparr>rowIndex = 2, colIndex = 1\<rparr>,
           previousValue = JStr [], newValue = JStr ''9x''\<rparr>]
   \<and> cellChanges
        (snd (stopEditingK decimals grid (Some \<lparr>save = Some True, keyPress = None\<rparr>) typedK))
       = [\<lparr>coords = \<lparr>rowIndex = 2, colIndex = 1\<rparr>,
           previousValue = JStr ''9'', newValue = JStr ''9x''\<rparr>]"
  using stopEditing_commits_loosely_changed
    [where props = grid and m = typed and s = "the (state typed)"
       and params = "Some \<lparr>save = Some True\<rparr>" and v = "JStr ''9x''"
       and k = typedK and t = "the (state typedK)"
       and paramsK = "Some \<lparr>save = Some True, keyPress = None\<rparr>" and w = "JStr ''9x''"
       and js = decimals]
  by (simp add: typed_eq typedK_eq grid_def saving_def isValid_def loose_eq_def)

text \<open>
  C1 as stated fails twice. With strict inequality: the cell holds the number 5 and the
  editor returns the string \<open>5\<close>, which is strictly different and passes the
  validation, and no cell change is emitted. With a candidate that is defined: the
  editor returns \<open>null\<close>, which is not undefined and differs from the initial value,
  the empty string, and no cell change is emitted.
\<close>

theorem strict_inequality_counterexample:
  "onCellChange grid
   \<and> state retyped \<noteq> None
   \<and> initialValue (the (state retyped)) = JNum (Finite 5)
   \<and> editorRef retyped = Some (JStr ''5'')
   \<and> isValid (the (state retyped)) (JStr ''5'')
   \<and> \<not> strict_eq (JStr ''5'') (JNum (Finite 5))
   \<and> cellChanges (snd (stopEditing decimals grid (Some \<lparr>save = Some True\<rparr>) retyped)) = []
   \<and> state nulled \<noteq> None
   \<and> initialValue (the (state nulled)) = JStr []
   \<and> editorRef nulled = Some JNull
   \<and> isValid (the (state nulled)) JNull
   \<and> \<not> strict_eq JNull (JStr [])
   \<and> cellChanges (snd (stopEditing decimals grid (Some \<lparr>save = Some True\<rparr>) nulled)) = []"
proof -
  have "cellChanges (snd (stopEditing decimals grid (Some \<lparr>save = Some True\<rparr>) retyped)) = []"
    by (simp add: retyped_eq grid_def getValue_def stopEditing_def saving_def isValid_def
        commitChange_def number_simps)
  moreover
  have "cellChanges (snd (stopEditing decimals grid (Some \<lparr>save = Some True\<rparr>) nulled)) = []"
    by (simp add: nulled_eq getValue_def stopEditing_def saving_def)
  ultimately show ?thesis
    by (simp add: retyped_eq nulled_eq grid_def isValid_def)
qed


section \<open>The value an editor starts with\<close>

lemma zeroKeyed_eq:
  "zeroKeyed =
     \<lparr>state = Some
        \<lparr>s_node = Created NumericEditor
           \<lparr>anchorRef = 0, value = JStr ''9'', p_maxLength = 8, p_validatorHook = None\<rparr>,
         s_rowIndex = 1, s_colIndex = 1, initialValue = JNum (Finite 0), targetElement = 0,
         s_validatorHook = None, isPopup = False\<rparr>,
      editorRef = None,
      editorNode = Some (Created NumericEditor
           \<lparr>anchorRef = 0, value = JStr ''9'', p_maxLength = 8, p_validatorHook = None\<rparr>)\<rparr>"
  by (simp add: zeroKeyed_def grid_simps begin_simps)

text \<open>
  C4 (as amended): in a \<open>beginEditing\<close> call that creates a session, the buffered
  value is the current cell value followed by \<open>defaultKey\<close> (the cell value converted
  to a string as the operator \<open>+\<close> does, a string cell value as it is) when
  \<open>defaultKey\<close> is a non-empty string and the current cell value is truthy;
  \<open>defaultKey\<close> alone when \<open>defaultKey\<close> is a non-empty string and the current cell
  value is falsy (undefined, null, false, 0, NaN or the empty string); and without a
  non-empty \<open>defaultKey\<close> the current cell value when it is truthy, else the empty
  string. A built-in editor is created with this value. The initial value of the session
  is the cell value, or the empty string when that is null or undefined, in the
  API-driven manager, and the buffered value in the props-driven manager. In the
  scenario (the empty quantity cell at row 2, column 1, key 9, candidate read back as
  \<open>9x\<close>, then a saving \<open>stopEditing\<close>) the API-driven manager emits the cell change
  with coordinate (2, 1), previous value the empty string and new value \<open>9x\<close>, then
  the stop-editing event.
\<close>

theorem buffered_value:
  assumes "createsSession props params m column r"
    and "createsSession props params k column r"
  shows "(\<forall>key. defaultKey params = Some key \<and> key \<noteq> [] \<and> truthy (getProp r (accessor column))
          \<longrightarrow> bufferedValue js r column (defaultKey params)
               = JStr (ToString js (getProp r (accessor column)) @ key))
     \<and> (\<forall>key text. defaultKey params = Some key \<and> key \<noteq> []
            \<and> getProp r (accessor column) = JStr text \<and> text \<noteq> []
          \<longrightarrow> bufferedValue js r column (defaultKey params) = JStr (text @ key))
     \<and> (\<forall>key. defaultKey params = Some key \<and> key \<noteq> [] \<and> \<not> truthy (getProp r (accessor column))
          \<longrightarrow> bufferedValue js r column (defaultKey params) = JStr key)
     \<and> (defaultKey params = None \<or> defaultKey params = Some []
          \<longrightarrow> bufferedValue js r column (defaultKey params)
               = (if truthy (getProp r (accessor column)) then getProp r (accessor column)
                  else JStr []))
     \<and> (editor column = None
          \<longrightarrow> (\<exists>c p. editorNode (fst (beginEditing js props params m)) = Some (Created c p)
                 \<and> editorNode (fst (beginEditingK js props params k)) = Some (Created c p)
                 \<and> value p = bufferedValue js r column (defaultKey params)))
     \<and> map_option initialValue (state (fst (beginEditing js props params m)))
          = Some (nullish (getProp r (accessor column)) (JStr []))
     \<and> map_option initialValue (state (fst (beginEditingK js props params k)))
          = Some (bufferedValue js r column (defaultKey params))
     \<and> snd (stopEditing js grid (Some \<lparr>save = Some True\<rparr>)
               (onRefMount (JStr ''9x'')
                  (fst (beginEditing js grid (cell 2 1 (Some ''9'')) idle))))
          = [OnCellChange \<lparr>coords = \<lparr>rowIndex = 2, colIndex = 1\<rparr>,
                           previousValue = JStr [], newValue = JStr ''9x''\<rparr>,
             CELL_STOP_EDITING \<lparr>rowIndex = 2, colIndex = 1\<rparr>]"
proof -
  have scenario: "snd (stopEditing js grid (Some \<lparr>save = Some True\<rparr>)
               (onRefMount (JStr ''9x'')
                  (fst (beginEditing js grid (cell 2 1 (Some ''9'')) idle))))
          = [OnCellChange \<lparr>coords = \<lparr>rowIndex = 2, colIndex = 1\<rparr>,
                           previousValue = JStr [], newValue = JStr ''9x''\<rparr>,
             CELL_STOP_EDITING \<lparr>rowIndex = 2, colIndex = 1\<rparr>]"
    by (simp add: grid_simps begin_simps onRefMount_def stopEditing_def saving_def
        getValue_def isValid_def commitChange_def sessionCoords_def loose_eq_def)
  have buffered: "(\<forall>key. defaultKey params = Some key \<and> key \<noteq> [] \<and> truthy (getProp r (accessor column))
          \<longrightarrow> bufferedValue js r column (defaultKey params)
               = JStr (ToString js (getProp r (accessor column)) @ key))
     \<and> (\<forall>key text. defaultKey params = Some key \<and> key \<noteq> []
            \<and> getProp r (accessor column) = JStr text \<and> text \<noteq> []
          \<longrightarrow> bufferedValue js r column (defaultKey params) = JStr (text @ key))
     \<and> (\<forall>key. defaultKey params = Some key \<and> key \<noteq> [] \<and> \<not> truthy (getProp r (accessor column))
          \<longrightarrow> bufferedValue js r column (defaultKey params) = JStr key)
     \<and> (defaultKey params = None \<or> defaultKey params = Some []
          \<longrightarrow> bufferedValue js r column (defaultKey params)
               = (if truthy (getProp r (accessor column)) then getProp r (accessor column)
                  else JStr []))"
    by (auto simp add: bufferedValue_def plus_string_def)
  have nodes: "editor column = None
          \<longrightarrow> (\<exists>c p. editorNode (fst (beginEditing js props params m)) = Some (Created c p)
                 \<and> editorNode (fst (beginEditingK js props params k)) = Some (Created c p)
                 \<and> value p = bufferedValue js r column (defaultKey params))"
    unfolding beginEditing_creates [OF assms(1)] beginEditingK_creates [OF assms(2)]
    by (simp add: getEditor_def editorProps_def)
  have initials: "map_option initialValue (state (fst (beginEditing js props params m)))
          = Some (nullish (getProp r (accessor column)) (JStr []))
     \<and> map_option initialValue (state (fst (beginEditingK js props params k)))
          = Some (bufferedValue js r column (defaultKey params))"
    unfolding beginEditing_creates [OF assms(1)] beginEditingK_creates [OF assms(2)]
    by simp
  from buffered nodes initials scenario show ?thesis by blast
qed

theorem buffered_value_witness:
  "createsSession grid (cell 2 1 (Some ''9'')) idle (the (gridColumn 1)) (gridRows ! 2)
   \<and> createsSession grid (cell 2 1 (Some ''9'')) mounted (the (gridColumn 1)) (gridRows ! 2)
   \<and> defaultKey (cell 2 1 (Some ''9'')) = Some ''9''
   \<and> \<not> truthy (getProp (gridRows ! 2) (accessor (the (gridColumn 1))))
   \<and> bufferedValue decimals (gridRows ! 2) (the (gridColumn 1))
        (defaultKey (cell 2 1 (Some ''9'')))
       = JStr ''9''"
proof -
  have "defaultKey (cell 2 1 (Some ''9'')) = Some ''9''
     \<and> \<not> truthy (getProp (gridRows ! 2) (accessor (the (gridColumn 1))))"
    by (simp add: cell_def gridRows_def gridColumn_def getProp_def)
  with buffered_value [OF grid_creates, where js = decimals] grid_creates
  show ?thesis by blast
qed

text \<open>
  C4 as stated fails for a cell that holds the number 0: a current value exists, the
  key is 9, and the editor starts with the key alone, \<open>9\<close>, not with the cell value
  followed by the key, \<open>09\<close>.
\<close>

theorem existing_zero_counterexample:
  "getProp (gridRows ! 1) ''qty'' = JNum (Finite 0)
   \<and> zeroKeyed = fst (beginEditing decimals grid (cell 1 1 (Some ''9'')) idle)
   \<and> plus_string decimals (JNum (Finite 0)) ''9'' = JStr ''09''
   \<and> editorNode zeroKeyed
       = Some (Created NumericEditor
           \<lparr>anchorRef = 0, value = JStr ''9'', p_maxLength = 8, p_validatorHook = None\<rparr>)
   \<and> editorNode zeroKeyed
       \<noteq> Some (Created NumericEditor
           \<lparr>anchorRef = 0, value = plus_string decimals (JNum (Finite 0)) ''9'',
            p_maxLength = 8, p_validatorHook = None\<rparr>)"
proof -
  have "getProp (gridRows ! 1) ''qty'' = JNum (Finite 0)"
    by (simp add: gridRows_def getProp_def)
  moreover have "zeroKeyed = fst (beginEditing decimals grid (cell 1 1 (Some ''9'')) idle)"
    by (simp only: zeroKeyed_def)
  moreover have plus: "plus_string decimals (JNum (Finite 0)) ''9'' = JStr ''09''"
    by (simp add: plus_string_def decimals_def)
  moreover have "editorNode zeroKeyed
       = Some (Created NumericEditor
           \<lparr>anchorRef = 0, value = JStr ''9'', p_maxLength = 8, p_validatorHook = None\<rparr>)"
    by (simp add: zeroKeyed_eq)
  moreover have "editorNode zeroKeyed
       \<noteq> Some (Created NumericEditor
           \<lparr>anchorRef = 0, value = plus_string decimals (JNum (Finite 0)) ''9'',
            p_maxLength = 8, p_validatorHook = None\<rparr>)"
    by (simp add: zeroKeyed_eq plus)
  ultimately show ?thesis by blast
qed


section \<open>Navigation inside the grid\<close>

lemma moveTo_inside:
  assumes "inside b current" and "\<forall>c. inside b c \<longrightarrow> inside b (resolve c)"
  shows "inside b (moveTo resolve b target current)"
proof (cases "isIndexOutOfBoundaries (rowIndex target) 0 (maxRow b)
         \<or> isIndexOutOfBoundaries (colIndex target) 0 (maxCol b)")
  case True
  then show ?thesis using assms(1) by (simp add: moveTo_def)
next
  case False
  then have "inside b target"
    by (simp add: isIndexOutOfBoundaries_def inside_def)
  with assms(2) False show ?thesis by (simp add: moveTo_def)
qed

lemma navigate_inside:
  assumes "\<forall>c. inside b c \<longrightarrow> inside b (resolve c)"
  shows "inside b current \<Longrightarrow> inside b (navigate resolve b cs current)"
proof (induction cs arbitrary: current)
  case Nil
  then show ?case by simp
next
  case (Cons c cs)
  show ?case
  proof (cases c)
    case (MoveTo t)
    with Cons assms show ?thesis by (simp add: moveTo_inside)
  next
    case (MoveBy d)
    with Cons assms show ?thesis by (simp add: moveBy_def moveTo_inside)
  qed
qed

text \<open>
  Merge regions whose anchors are inside the grid give a resolver that stays inside.
\<close>

lemma resolveAnchor_inside:
  assumes "\<forall>r \<in> set regions. inside b (anchor r)" and "inside b c"
  shows "inside b (resolveAnchor regions c)"
proof (cases "find (\<lambda>r. c \<in> set (spanning r)) regions")
  case None
  with assms(2) show ?thesis by (simp add: resolveAnchor_def)
next
  case (Some r)
  then have "r \<in> set regions"
    by (auto simp add: find_Some_iff)
  with assms(1) Some show ?thesis by (simp add: resolveAnchor_def)
qed

lemma merged_inside: "\<forall>c. inside sheet c \<longrightarrow> inside sheet (resolveAnchor merged c)"
proof -
  have "\<forall>r \<in> set merged. inside sheet (anchor r)"
    by (simp add: merged_def inside_def sheet_def)
  then show ?thesis by (simp add: resolveAnchor_inside)
qed

text \<open>
  C8 (as amended): the bounds test holds exactly when the index is below the minimum or
  above the maximum; \<open>moveTo\<close> and \<open>moveBy\<close> reject a target with a row or column
  index outside \<open>[0, maxRow]\<close> or \<open>[0, maxCol]\<close> and leave the state unchanged; and,
  provided the Merge Resolver returns a coordinate inside the grid for every coordinate
  inside the grid (with merge regions: every anchor is inside the grid), no sequence of
  \<open>moveTo\<close> and \<open>moveBy\<close> calls from a coordinate inside the grid leaves the grid.
\<close>

theorem navigation_stays_inside:
  assumes "inside b start" and "\<forall>c. inside b c \<longrightarrow> inside b (resolve c)"
  shows "inside b (navigate resolve b cs start)
     \<and> (\<forall>t current.
          isIndexOutOfBoundaries (rowIndex t) 0 (maxRow b)
          \<or> isIndexOutOfBoundaries (colIndex t) 0 (maxCol b)
          \<longrightarrow> moveTo resolve b t current = current)
     \<and> (\<forall>d current.
          isIndexOutOfBoundaries (rowIndex current + rowIndex d) 0 (maxRow b)
          \<or> isIndexOutOfBoundaries (colIndex current + colIndex d) 0 (maxCol b)
          \<longrightarrow> moveBy resolve b d current = current)
     \<and> (\<forall>i lo hi. isIndexOutOfBoundaries i lo hi \<longleftrightarrow> i < lo \<or> i > hi)"
proof -
  have "inside b (navigate resolve b cs start)"
    using navigate_inside [OF assms(2) assms(1)] .
  moreover have "\<forall>t current.
          isIndexOutOfBoundaries (rowIndex t) 0 (maxRow b)
          \<or> isIndexOutOfBoundaries (colIndex t) 0 (maxCol b)
          \<longrightarrow> moveTo resolve b t current = current"
    by (simp add: moveTo_def)
  moreover have "\<forall>d current.
          isIndexOutOfBoundaries (rowIndex current + rowIndex d) 0 (maxRow b)
          \<or> isIndexOutOfBoundaries (colIndex current + colIndex d) 0 (maxCol b)
          \<longrightarrow> moveBy resolve b d current = current"
    by (simp add: moveBy_def moveTo_def)
  moreover have "\<forall>i lo hi. isIndexOutOfBoundaries i lo hi \<longleftrightarrow> i < lo \<or> i > hi"
    by (simp add: isIndexOutOfBoundaries_def)
  ultimately show ?thesis by blast
qed

theorem navigation_stays_inside_witness:
  "inside sheet \<lparr>rowIndex = 1, colIndex = 1\<rparr>
   \<and> inside sheet (navigate (resolveAnchor merged) sheet tour \<lparr>rowIndex = 1, colIndex = 1\<rparr>)
   \<and> navigate (resolveAnchor merged) sheet tour \<lparr>rowIndex = 1, colIndex = 1\<rparr>
       = \<lparr>rowIndex = 0, colIndex = 0\<rparr>"
proof -
  have s: "inside sheet \<lparr>rowIndex = 1, colIndex = 1\<rparr>"
    by (simp add: inside_def sheet_def)
  have "navigate (resolveAnchor merged) sheet tour \<lparr>rowIndex = 1, colIndex = 1\<rparr>
       = \<lparr>rowIndex = 0, colIndex = 0\<rparr>"
    by (simp add: tour_def moveTo_def moveBy_def isIndexOutOfBoundaries_def sheet_def
        resolveAnchor_def merged_def)
  with s merged_inside navigation_stays_inside [OF s merged_inside, of tour]
  show ?thesis by blast
qed

text \<open>
  C8 as stated fails when a merge region has its anchor outside the grid: from (0, 0)
  the target (0, 1) is inside the sheet, is accepted, and the state becomes the anchor
  (9, 9), outside the sheet.
\<close>

theorem stray_anchor_counterexample:
  "inside sheet \<lparr>rowIndex = 0, colIndex = 0\<rparr>
   \<and> inside sheet \<lparr>rowIndex = 0, colIndex = 1\<rparr>
   \<and> navigate (resolveAnchor stray) sheet [MoveTo \<lparr>rowIndex = 0, colIndex = 1\<rparr>]
        \<lparr>rowIndex = 0, colIndex = 0\<rparr>
       = \<lparr>rowIndex = 9, colIndex = 9\<rparr>
   \<and> \<not> inside sheet
        (navigate (resolveAnchor stray) sheet [MoveTo \<lparr>rowIndex = 0, colIndex = 1\<rparr>]
           \<lparr>rowIndex = 0, colIndex = 0\<rparr>)"
  by (simp add: inside_def sheet_def moveTo_def isIndexOutOfBoundaries_def resolveAnchor_def
      stray_def)


section \<open>The reconciler\<close>

lemma stopEditing_discard:
  assumes "state m = Some s"
  shows "stopEditing js props (Some \<lparr>save = Some False\<rparr>) m
     = (m\<lparr>editorRef := None, state := None, editorNode := None\<rparr>,
        [CELL_STOP_EDITING \<lparr>rowIndex = s_rowIndex s, colIndex = s_colIndex s\<rparr>])"
  using assms by (simp add: stopEditing_def saving_def sessionCoords_def)

lemma stopEditingK_discard:
  assumes "state k = Some s"
  shows "stopEditingK js props (Some \<lparr>save = Some False, keyPress = None\<rparr>) k
     = (k\<lparr>editorRef := None, state := None, editorNode := None\<rparr>, [])"
  using assms by (simp add: stopEditingK_def saving_def closeEditor_def)

text \<open>
  When React runs it for an active session, the reconciler of either manager closes
  the session without saving if the row or the column of the session is absent or the
  accessor yields undefined on the row, and keeps the session otherwise.
\<close>

lemma reconcile_run:
  assumes "state m = Some s" and "editorNode m = Some n"
  shows "(at_index (rows props) (s_rowIndex s) = None
          \<or> getColumnAt props (s_colIndex s) = None
          \<or> (\<exists>target column. at_index (rows props) (s_rowIndex s) = Some target
                \<and> getColumnAt props (s_colIndex s) = Some column
                \<and> getProp target (accessor column) = JUndefined)
        \<longrightarrow> reconcile js props m = stopEditing js props (Some \<lparr>save = Some False\<rparr>) m
          \<and> state (fst (reconcile js props m)) = None
          \<and> cellChanges (snd (reconcile js props m)) = [])
     \<and> ((\<exists>target column. at_index (rows props) (s_rowIndex s) = Some target
                \<and> getColumnAt props (s_colIndex s) = Some column
                \<and> getProp target (accessor column) \<noteq> JUndefined)
        \<longrightarrow> reconcile js props m = (m, []))"
  using assms
  by (auto simp add: reconcile_def stopEditing_discard split: option.splits)

lemma reconcileK_run:
  assumes "state k = Some s" and "editorNode k = Some n"
  shows "(at_index (rows props) (s_rowIndex s) = None
          \<or> getColumnAt props (s_colIndex s) = None
          \<or> (\<exists>target column. at_index (rows props) (s_rowIndex s) = Some target
                \<and> getColumnAt props (s_colIndex s) = Some column
                \<and> getProp target (accessor column) = JUndefined)
        \<longrightarrow> reconcileK js props k
              = stopEditingK js props (Some \<lparr>save = Some False, keyPress = None\<rparr>) k
          \<and> state (fst (reconcileK js props k)) = None
          \<and> snd (reconcileK js props k) = [])
     \<and> ((\<exists>target column. at_index (rows props) (s_rowIndex s) = Some target
                \<and> getColumnAt props (s_colIndex s) = Some column
                \<and> getProp target (accessor column) \<noteq> JUndefined)
        \<longrightarrow> reconcileK js props k = (k, []))"
  using assms
  by (auto simp add: reconcileK_def stopEditingK_discard split: option.splits)

text \<open>The props-driven reconciler runs whenever the row array is another one.\<close>

lemma reconcilerEffectK_rows:
  assumes "id_rows p \<noteq> id_rows c"
  shows "reconcilerEffectK js (Some p) c props k = reconcileK js props k"
  using assms by (simp add: reconcilerEffectK_def reconcilerDepsK_def)

lemma lastRow_eq:
  "lastRow =
     \<lparr>state = Some
        \<lparr>s_node = Created TextEditor
           \<lparr>anchorRef = 0, value = JStr ''pad'', p_maxLength = 500, p_validatorHook = None\<rparr>,
         s_rowIndex = 4, s_colIndex = 0, initialValue = JStr ''pad'', targetElement = 0,
         s_validatorHook = None, isPopup = False\<rparr>,
      editorRef = None,
      editorNode = Some (Created TextEditor
           \<lparr>anchorRef = 0, value = JStr ''pad'', p_maxLength = 500, p_validatorHook = None\<rparr>)\<rparr>"
  by (simp add: lastRow_def grid_simps begin_simps)

lemma lastRowK_eq:
  "lastRowK =
     \<lparr>state = Some
        \<lparr>s_node = Created TextEditor
           \<lparr>anchorRef = 0, value = JStr ''pad'', p_maxLength = 500, p_validatorHook = None\<rparr>,
         s_rowIndex = 4, s_colIndex = 0, initialValue = JStr ''pad'', targetElement = 0,
         s_validatorHook = None, isPopup = False\<rparr>,
      editorRef = None,
      editorNode = Some (Created TextEditor
           \<lparr>anchorRef = 0, value = JStr ''pad'', p_maxLength = 500, p_validatorHook = None\<rparr>),
      scheduleMove = None, timers = [], nextTimer = 0, moveCleanup = None, moveSeen = None\<rparr>"
  by (simp add: lastRowK_def grid_simps begin_simps)

text \<open>
  C7: the reconciler of the API-driven manager does not run when only the row set has
  changed, since \<open>rows\<close> is not among its dependencies. The last row is being edited
  and the host deletes it: the row of the session is absent, the effect is skipped, and
  the session stays. Had the effect run, it would have closed the session, and the
  reconciler of the props-driven manager, which depends on \<open>rows\<close>, does close it.
\<close>

theorem reconciler_misses_deleted_row:
  "state lastRow \<noteq> None \<and> editorNode lastRow \<noteq> None
   \<and> s_rowIndex (the (state lastRow)) = 4
   \<and> at_index (rows grid) 4 \<noteq> None
   \<and> at_index (rows shrunk) 4 = None
   \<and> id_rows after \<noteq> id_rows before
   \<and> reconcilerEffect decimals (Some before) after shrunk lastRow = (lastRow, [])
   \<and> state (fst (reconcile decimals shrunk lastRow)) = None
   \<and> state (fst (reconcilerEffectK decimals (Some before) after shrunk lastRowK)) = None"
proof -
  have "state lastRow \<noteq> None \<and> editorNode lastRow \<noteq> None
     \<and> s_rowIndex (the (state lastRow)) = 4"
    by (simp add: lastRow_eq)
  moreover have "at_index (rows grid) 4 \<noteq> None \<and> at_index (rows shrunk) 4 = None"
    by (simp add: at_index_def shrunk_def grid_def gridRows_def)
  moreover have "id_rows after \<noteq> id_rows before"
    by (simp add: after_def before_def)
  moreover have "reconcilerEffect decimals (Some before) after shrunk lastRow = (lastRow, [])"
    by (simp add: reconcilerEffect_def reconcilerDeps_def after_def before_def)
  moreover have "state (fst (reconcile decimals shrunk lastRow)) = None"
    by (simp add: reconcile_def lastRow_eq at_index_def shrunk_def grid_def gridRows_def
        stopEditing_def saving_def)
  moreover have "state (fst (reconcilerEffectK decimals (Some before) after shrunk lastRowK)) = None"
    by (simp add: reconcilerEffectK_def reconcilerDepsK_def after_def before_def
        reconcileK_def lastRowK_eq at_index_def shrunk_def grid_def gridRows_def
        stopEditingK_def saving_def closeEditor_def)
  ultimately show ?thesis by blast
qed


section \<open>The replay of a navigation key\<close>
























end
